theory Spec2Isabelle
  imports Complex_Main "HOL-Library.AList"
begin

section \<open>The serving class \<open>TFModel\<close> of \<open>serving_code.ipynb\<close>\<close>

text \<open>
  The notebook defines one class, \<open>TFModel\<close>, with the hooks \<open>__init__\<close>, \<open>load\<close>,
  \<open>preprocess\<close>, \<open>predict\<close> and \<open>postprocess\<close>. Every hook is embedded as a HOL
  function of the adapter (\<open>self\<close>) and its argument. A raised exception is the \<open>Inl\<close>
  of a sum, a returned value its \<open>Inr\<close>.

  The collaborators that are not code of the notebook (the process environment, the file
  system, \<open>json\<close>, PIL, Keras, numpy) are either parameters or small models of the part
  of their behaviour the hooks rely on; each model says which behaviour it takes from the
  library.
\<close>

subsection \<open>Exceptions\<close>

datatype py_error =
    ValueError
  | KeyError
  | IndexError
  | AttributeError
  | TypeError
  | OSError
  | OverflowError
  | MemoryError
  | Exception string

subsection \<open>Arrays\<close>

text \<open>
  A numpy array is its shape and its elements in row-major order. The element type is a
  parameter: the hooks only move elements around, except for the maximum taken in
  \<open>postprocess\<close>.
\<close>

record 'px ndarray =
  shape :: "nat list"
  elems :: "'px list"

text \<open>\<open>np.expand_dims(x, axis=0)\<close>: a new leading axis of length 1.\<close>

definition expand_dims0 :: "'px ndarray \<Rightarrow> 'px ndarray" where
  "expand_dims0 x = x\<lparr>shape := 1 # shape x\<rparr>"

text \<open>
  \<open>np.atleast_2d\<close>: a scalar becomes \<open>(1, 1)\<close>, a vector of length \<open>n\<close> becomes
  \<open>(1, n)\<close>, every other array is left as it is.
\<close>

definition atleast_2d :: "'px ndarray \<Rightarrow> 'px ndarray" where
  "atleast_2d x =
     (case shape x of
        [] \<Rightarrow> x\<lparr>shape := [1, 1]\<rparr>
      | [n] \<Rightarrow> x\<lparr>shape := [1, n]\<rparr>
      | _ \<Rightarrow> x)"

text \<open>
  \<open>np.vstack(tup)\<close> is \<open>np.concatenate([atleast_2d(a) for a in tup], 0)\<close>. The
  concatenation raises \<open>ValueError\<close> on an empty sequence ("need at least one array to
  concatenate") and when the arrays differ in their number of axes or in any axis but the
  first. Otherwise the leading lengths add up and the row-major elements are appended.
\<close>

definition same_trailing :: "'px ndarray \<Rightarrow> 'px ndarray \<Rightarrow> bool" where
  "same_trailing a b \<longleftrightarrow>
     length (shape b) = length (shape a) \<and> tl (shape b) = tl (shape a)"

definition vstack :: "'px ndarray list \<Rightarrow> py_error + 'px ndarray" where
  "vstack tup =
     (case map atleast_2d tup of
        [] \<Rightarrow> Inl ValueError
      | a # rest \<Rightarrow>
          if list_all (same_trailing a) rest
          then Inr \<lparr>shape = sum_list (map (\<lambda>b. hd (shape b)) (a # rest)) # tl (shape a),
                    elems = concat (map elems (a # rest))\<rparr>
          else Inl ValueError)"

subsection \<open>Images\<close>

text \<open>
  A decoded PIL image: its size as PIL gives it, \<open>(width, height)\<close>, the number of bands
  of its mode (1 for \<open>L\<close>, 3 for \<open>RGB\<close>, 4 for \<open>RGBA\<close>, ...) and its pixel data.
\<close>

record 'px pil_image =
  img_size :: "nat \<times> nat"
  bands :: nat
  pixels :: "'px list"

text \<open>
  What the hooks of one request call outside the notebook and cannot be computed here:
  \<^item> \<open>Image_open\<close>: \<open>Image.open\<close> together with the decoding that PIL defers to the first
    use of the pixels; it raises on a source that is not a readable image;
  \<^item> \<open>resample\<close>: PIL's resampling of an image to a new size, both at least 1 and
    within a C \<open>int\<close>; it returns the pixel data of the new image, or raises (as a rule
    \<open>MemoryError\<close>, when the new image or the coefficients cannot be allocated);
  \<^item> \<open>body_str\<close>: Python's \<open>str\<close> of the request body, as the f-string
    \<open>f'received: {body}'\<close> formats it.
\<close>

record ('src, 'px) libs =
  Image_open :: "'src \<Rightarrow> py_error + 'px pil_image"
  resample :: "'px pil_image \<Rightarrow> nat \<times> nat \<Rightarrow> py_error + 'px list"
  body_str :: "(string \<rightharpoonup> 'src list) \<Rightarrow> string"

text \<open>
  \<open>img.resize((w, h))\<close>, in the order in which PIL decides:
  \<^item> an image that already has the size \<open>(w, h)\<close> is returned as a copy;
  \<^item> the size is handed to PIL's C code as two C \<open>int\<close>s: a \<open>w\<close> or \<open>h\<close> outside
    \<open>-2\<^sup>3\<^sup>1 .. 2\<^sup>3\<^sup>1 - 1\<close> raises \<open>OverflowError\<close>;
  \<^item> \<open>w < 1\<close> or \<open>h < 1\<close> raises \<open>ValueError\<close> ("height and width must be > 0");
  \<^item> otherwise the image is resampled, which may itself raise; the result has the size
    \<open>(w, h)\<close> and the mode of the image.
\<close>

definition c_int :: "int \<Rightarrow> bool" where
  "c_int i \<longleftrightarrow> - 2147483648 \<le> i \<and> i \<le> 2147483647"

definition resize ::
  "('src, 'px) libs \<Rightarrow> 'px pil_image \<Rightarrow> int \<times> int \<Rightarrow> py_error + 'px pil_image" where
  "resize L img sz =
     (if (int (fst (img_size img)), int (snd (img_size img))) = sz then Inr img
      else if \<not> c_int (fst sz) \<or> \<not> c_int (snd sz) then Inl OverflowError
      else if fst sz < 1 \<or> snd sz < 1 then Inl ValueError
      else (case resample L img (nat (fst sz), nat (snd sz)) of
              Inl e \<Rightarrow> Inl e
            | Inr data \<Rightarrow>
                Inr (img\<lparr>img_size := (nat (fst sz), nat (snd sz)), pixels := data\<rparr>)))"

text \<open>
  \<open>image.img_to_array(img)\<close> with Keras's default \<open>channels_last\<close>: an array of shape
  \<open>(height, width, bands)\<close>; a one-band image, which numpy reads as a matrix, gets the
  third axis of length 1.
\<close>

definition img_to_array :: "'px pil_image \<Rightarrow> 'px ndarray" where
  "img_to_array img =
     \<lparr>shape = [snd (img_size img), fst (img_size img), bands img], elems = pixels img\<rparr>"

subsection \<open>The adapter\<close>

text \<open>
  The fields of a \<open>TFModel\<close> object. \<open>name\<close> and \<open>model_dir\<close> are stored by the base
  class's constructor; \<open>model\<close> is absent until \<open>load\<close> has run. The predictor is a
  function from the list it is called with to what \<open>model.predict\<close> returns (a matrix of
  scores, read row by row as \<open>tolist()\<close> gives it) or raises. \<open>classes\<close> is Python's
  \<open>None\<close> when it is \<open>None\<close> here.
\<close>

type_synonym ('px, 's) predictor = "'px ndarray list \<Rightarrow> py_error + 's list list"

record ('j, 'px, 's) TFModel =
  name :: string
  model_dir :: string
  IMAGE_WIDTH :: int
  IMAGE_HEIGHT :: int
  classes :: "'j option"
  model :: "('px, 's) predictor option"

subsection \<open>\<open>predict\<close> and \<open>postprocess\<close>\<close>

text \<open>\<open>d.get(k, [])\<close> on a dictionary whose values are lists.\<close>

definition get_or_empty :: "(string \<rightharpoonup> 'a list) \<Rightarrow> string \<Rightarrow> 'a list" where
  "get_or_empty d k = (case d k of None \<Rightarrow> [] | Some v \<Rightarrow> v)"

text \<open>
  \<^verbatim>\<open>
  def predict(self, data):
      images = data.get('instances', [])
      predicted_probability = self.model.predict(images)
      return predicted_probability
  \<close>
  Reading \<open>self.model\<close> before \<open>load\<close> raises \<open>AttributeError\<close>.
\<close>

definition predict ::
  "('j, 'px, 's) TFModel \<Rightarrow> (string \<rightharpoonup> 'px ndarray list) \<Rightarrow> py_error + 's list list" where
  "predict self data =
     (let images = get_or_empty data ''instances'' in
      case model self of
        None \<Rightarrow> Inl AttributeError
      | Some m \<Rightarrow> m images)"

text \<open>
  \<^verbatim>\<open>
  def postprocess(self, predicted_probability):
      predicted_probabilities = np.max(predicted_probability.tolist()[0])
      return {'Mask probability': predicted_probabilities}
  \<close>
  \<open>[0]\<close> on an empty list raises \<open>IndexError\<close>; \<open>np.max\<close> of an empty row raises
  \<open>ValueError\<close>. Scores are taken from a linear order (no NaN).
\<close>

definition np_max :: "('s::linorder) list \<Rightarrow> py_error + 's" where
  "np_max row = (case row of [] \<Rightarrow> Inl ValueError | x # xs \<Rightarrow> Inr (fold max xs x))"

definition postprocess ::
  "('j, 'px, 's::linorder) TFModel \<Rightarrow> 's list list \<Rightarrow> py_error + (string \<rightharpoonup> 's)" where
  "postprocess self predicted_probability =
     (case predicted_probability of
        [] \<Rightarrow> Inl IndexError
      | row0 # _ \<Rightarrow>
          (case np_max row0 of
             Inl e \<Rightarrow> Inl e
           | Inr predicted_probabilities \<Rightarrow>
               Inr [''Mask probability'' \<mapsto> predicted_probabilities]))"

subsection \<open>\<open>preprocess\<close>\<close>

text \<open>
  \<^verbatim>\<open>
  def preprocess(self, body):
      try:
          output = {'instances': []}
          instances = body.get('instances', [])
          for byte_image in instances:
              img = Image.open(byte_image)
              img = img.resize((self.IMAGE_WIDTH, self.IMAGE_HEIGHT))
              x = image.img_to_array(img)
              x = np.expand_dims(x, axis=0)
              output['instances'].append(x)
          output['instances'] = [np.vstack(output['instances'])]
          return output
      except:
          raise Exception(f'received: {body}')
  \<close>
  The body is a dictionary whose values are lists of image sources. The \<open>for\<close> loop is
  \<open>preprocess_loop\<close>, with the list \<open>output['instances']\<close> as its accumulator; the
  body of the \<open>try\<close> is \<open>preprocess_try\<close>; \<open>preprocess\<close> adds the handler.
\<close>

fun preprocess_loop ::
  "('src, 'px) libs \<Rightarrow> ('j, 'px, 's) TFModel \<Rightarrow> 'src list \<Rightarrow> 'px ndarray list
     \<Rightarrow> py_error + 'px ndarray list" where
  "preprocess_loop L self [] acc = Inr acc"
| "preprocess_loop L self (byte_image # instances) acc =
     (case Image_open L byte_image of
        Inl e \<Rightarrow> Inl e
      | Inr img \<Rightarrow>
          (case resize L img (IMAGE_WIDTH self, IMAGE_HEIGHT self) of
             Inl e \<Rightarrow> Inl e
           | Inr img' \<Rightarrow>
               preprocess_loop L self instances
                 (acc @ [expand_dims0 (img_to_array img')])))"

definition preprocess_try ::
  "('src, 'px) libs \<Rightarrow> ('j, 'px, 's) TFModel \<Rightarrow> (string \<rightharpoonup> 'src list)
     \<Rightarrow> py_error + (string \<rightharpoonup> 'px ndarray list)" where
  "preprocess_try L self body =
     (let instances = get_or_empty body ''instances'' in
      case preprocess_loop L self instances [] of
        Inl e \<Rightarrow> Inl e
      | Inr arrays \<Rightarrow>
          (case vstack arrays of
             Inl e \<Rightarrow> Inl e
           | Inr stacked \<Rightarrow> Inr [''instances'' \<mapsto> [stacked]]))"

definition preprocess ::
  "('src, 'px) libs \<Rightarrow> ('j, 'px, 's) TFModel \<Rightarrow> (string \<rightharpoonup> 'src list)
     \<Rightarrow> py_error + (string \<rightharpoonup> 'px ndarray list)" where
  "preprocess L self body =
     (case preprocess_try L self body of
        Inl _ \<Rightarrow> Inl (Exception (''received: '' @ body_str L body))
      | Inr output \<Rightarrow> Inr output)"


subsection \<open>One request\<close>

text \<open>
  The hosting runtime sends a body through \<open>preprocess\<close>, \<open>predict\<close> and
  \<open>postprocess\<close>; an exception of one hook ends the request.
\<close>

definition pipeline ::
  "('src, 'px) libs \<Rightarrow> ('j, 'px, 's::linorder) TFModel \<Rightarrow> (string \<rightharpoonup> 'src list)
     \<Rightarrow> py_error + (string \<rightharpoonup> 's)" where
  "pipeline L self body =
     (case preprocess L self body of
        Inl e \<Rightarrow> Inl e
      | Inr data \<Rightarrow>
          (case predict self data of
             Inl e \<Rightarrow> Inl e
           | Inr predicted_probability \<Rightarrow> postprocess self predicted_probability))"

subsection \<open>The hooks on a heap of objects\<close>

text \<open>
  The functions above take the request body and give the output as values. In Python
  both are objects: \<open>preprocess\<close> creates the dictionary \<open>output\<close> and a list in it,
  appends to that list and then puts another list in its place, while \<open>body\<close> and
  \<open>self\<close> are objects that live on after the request. To follow what one request
  does to the objects that the next one reads, the hooks are embedded a second time, as
  functions from a heap to a result and a heap.

  A heap is the list of the objects created so far; an address is a position in it. A
  new object gets the first unused address, and no object is ever removed. A dictionary
  holds the addresses of its values, in insertion order; a list holds its items, which
  are image sources or arrays (both are values here: no hook changes one).
\<close>

type_synonym addr = nat

datatype ('src, 'px) item = Src 'src | Arr "'px ndarray"

datatype ('j, 'src, 'px, 's) pyobj =
    PySelf "('j, 'px, 's) TFModel"
  | PyDict "(string \<times> addr) list"
  | PyList "('src, 'px) item list"

type_synonym ('j, 'src, 'px, 's) heap = "('j, 'src, 'px, 's) pyobj list"

definition deref :: "('j, 'src, 'px, 's) heap \<Rightarrow> addr \<Rightarrow> ('j, 'src, 'px, 's) pyobj option" where
  "deref h a = (if a < length h then Some (h ! a) else None)"

definition alloc ::
  "('j, 'src, 'px, 's) pyobj \<Rightarrow> ('j, 'src, 'px, 's) heap \<Rightarrow> addr \<times> ('j, 'src, 'px, 's) heap" where
  "alloc obj h = (length h, h @ [obj])"

text \<open>The sources of a list that holds only sources, the arrays of one that holds only arrays.\<close>

fun srcs_of :: "('src, 'px) item list \<Rightarrow> 'src list option" where
  "srcs_of [] = Some []"
| "srcs_of (Src s # xs) = map_option ((#) s) (srcs_of xs)"
| "srcs_of (Arr _ # xs) = None"

fun arrs_of :: "('src, 'px) item list \<Rightarrow> 'px ndarray list option" where
  "arrs_of [] = Some []"
| "arrs_of (Arr a # xs) = map_option ((#) a) (arrs_of xs)"
| "arrs_of (Src _ # xs) = None"

text \<open>
  The operations on objects that the hooks use:
  \<^item> \<open>self_of\<close>: reading an attribute of \<open>self\<close> needs the adapter at that address;
  \<^item> \<open>dict_get_items\<close>: \<open>d.get(k, [])\<close> and the items of the list it gives, as the
    \<open>for\<close> loop or the predictor goes through them; \<open>get\<close> on an object that is no
    dictionary raises \<open>AttributeError\<close>, and a value that is no list is not followed
    further (it counts as a \<open>TypeError\<close>);
  \<^item> \<open>dict_item\<close>: \<open>d[k]\<close>, with \<open>KeyError\<close> for a missing key;
  \<^item> \<open>dict_set\<close>: \<open>d[k] = v\<close>, which keeps the place of a key that is there already;
  \<^item> \<open>list_append\<close>: \<open>l.append(x)\<close>, which changes the list object in place;
  \<^item> \<open>list_arrays\<close>: the arrays of a list, as \<open>np.vstack\<close> reads them; a list with a
    source in it is not followed further (\<open>TypeError\<close>);
  \<^item> \<open>open_item\<close>: \<open>Image.open\<close> of an item; an array is no file and has no \<open>read\<close>.
\<close>

definition self_of ::
  "('j, 'src, 'px, 's) heap \<Rightarrow> addr \<Rightarrow> py_error + ('j, 'px, 's) TFModel" where
  "self_of h slf = (case deref h slf of Some (PySelf self) \<Rightarrow> Inr self | _ \<Rightarrow> Inl AttributeError)"

definition dict_get_items ::
  "('j, 'src, 'px, 's) heap \<Rightarrow> addr \<Rightarrow> string \<Rightarrow> py_error + ('src, 'px) item list" where
  "dict_get_items h d k =
     (case deref h d of
        Some (PyDict kvs) \<Rightarrow>
          (case map_of kvs k of
             None \<Rightarrow> Inr []
           | Some l \<Rightarrow> (case deref h l of Some (PyList xs) \<Rightarrow> Inr xs | _ \<Rightarrow> Inl TypeError))
      | _ \<Rightarrow> Inl AttributeError)"

definition dict_item :: "('j, 'src, 'px, 's) heap \<Rightarrow> addr \<Rightarrow> string \<Rightarrow> py_error + addr" where
  "dict_item h d k =
     (case deref h d of
        Some (PyDict kvs) \<Rightarrow> (case map_of kvs k of None \<Rightarrow> Inl KeyError | Some v \<Rightarrow> Inr v)
      | _ \<Rightarrow> Inl TypeError)"

definition dict_set ::
  "('j, 'src, 'px, 's) heap \<Rightarrow> addr \<Rightarrow> string \<Rightarrow> addr \<Rightarrow> py_error + ('j, 'src, 'px, 's) heap" where
  "dict_set h d k v =
     (case deref h d of
        Some (PyDict kvs) \<Rightarrow> Inr (h[d := PyDict (AList.update k v kvs)])
      | _ \<Rightarrow> Inl TypeError)"

definition list_append ::
  "('j, 'src, 'px, 's) heap \<Rightarrow> addr \<Rightarrow> ('src, 'px) item \<Rightarrow> py_error + ('j, 'src, 'px, 's) heap" where
  "list_append h l x =
     (case deref h l of
        Some (PyList xs) \<Rightarrow> Inr (h[l := PyList (xs @ [x])])
      | _ \<Rightarrow> Inl AttributeError)"

definition list_arrays ::
  "('j, 'src, 'px, 's) heap \<Rightarrow> addr \<Rightarrow> py_error + 'px ndarray list" where
  "list_arrays h l =
     (case deref h l of
        Some (PyList xs) \<Rightarrow> (case arrs_of xs of None \<Rightarrow> Inl TypeError | Some as \<Rightarrow> Inr as)
      | _ \<Rightarrow> Inl TypeError)"

definition open_item :: "('src, 'px) libs \<Rightarrow> ('src, 'px) item \<Rightarrow> py_error + 'px pil_image" where
  "open_item L x = (case x of Src byte_image \<Rightarrow> Image_open L byte_image | Arr _ \<Rightarrow> Inl AttributeError)"

text \<open>
  \<open>preprocess\<close>, statement by statement (the source is quoted at the first embedding):
  \<^item> \<open>output = {'instances': []}\<close> creates a list and then a dictionary;
  \<^item> \<open>instances = body.get('instances', [])\<close> reads the body;
  \<^item> the loop goes through the items that this list has when the loop starts; each
    round reads \<open>self.IMAGE_WIDTH\<close> and \<open>self.IMAGE_HEIGHT\<close>, looks up
    \<open>output['instances']\<close> and appends to the list found there;
  \<^item> \<open>output['instances'] = [np.vstack(output['instances'])]\<close> reads that list, creates
    the list of the stacked tensor and stores its address in \<open>output\<close>;
  \<^item> the address of \<open>output\<close> is returned.

  An exception leaves the heap as it is at that moment.
\<close>

fun preprocess_loop_h ::
  "('src, 'px) libs \<Rightarrow> addr \<Rightarrow> addr \<Rightarrow> ('src, 'px) item list \<Rightarrow> ('j, 'src, 'px, 's) heap
     \<Rightarrow> (py_error + unit) \<times> ('j, 'src, 'px, 's) heap" where
  "preprocess_loop_h L slf output [] h = (Inr (), h)"
| "preprocess_loop_h L slf output (byte_image # instances) h =
     (case open_item L byte_image of
        Inl e \<Rightarrow> (Inl e, h)
      | Inr img \<Rightarrow>
          (case self_of h slf of
             Inl e \<Rightarrow> (Inl e, h)
           | Inr self \<Rightarrow>
               (case resize L img (IMAGE_WIDTH self, IMAGE_HEIGHT self) of
                  Inl e \<Rightarrow> (Inl e, h)
                | Inr img' \<Rightarrow>
                    (case dict_item h output ''instances'' of
                       Inl e \<Rightarrow> (Inl e, h)
                     | Inr l \<Rightarrow>
                         (case list_append h l (Arr (expand_dims0 (img_to_array img'))) of
                            Inl e \<Rightarrow> (Inl e, h)
                          | Inr h' \<Rightarrow> preprocess_loop_h L slf output instances h')))))"

definition preprocess_try_h ::
  "('src, 'px) libs \<Rightarrow> addr \<Rightarrow> addr \<Rightarrow> ('j, 'src, 'px, 's) heap
     \<Rightarrow> (py_error + addr) \<times> ('j, 'src, 'px, 's) heap" where
  "preprocess_try_h L slf body h =
     (let (l, h1) = alloc (PyList []) h;
          (output, h2) = alloc (PyDict [(''instances'', l)]) h1
      in
      case dict_get_items h2 body ''instances'' of
        Inl e \<Rightarrow> (Inl e, h2)
      | Inr instances \<Rightarrow>
          (case preprocess_loop_h L slf output instances h2 of
             (Inl e, h3) \<Rightarrow> (Inl e, h3)
           | (Inr _, h3) \<Rightarrow>
               (case dict_item h3 output ''instances'' of
                  Inl e \<Rightarrow> (Inl e, h3)
                | Inr l' \<Rightarrow>
                    (case list_arrays h3 l' of
                       Inl e \<Rightarrow> (Inl e, h3)
                     | Inr arrays \<Rightarrow>
                         (case vstack arrays of
                            Inl e \<Rightarrow> (Inl e, h3)
                          | Inr stacked \<Rightarrow>
                              (let (l2, h4) = alloc (PyList [Arr stacked]) h3 in
                               case dict_set h4 output ''instances'' l2 of
                                 Inl e \<Rightarrow> (Inl e, h4)
                               | Inr h5 \<Rightarrow> (Inr output, h5)))))))"

text \<open>
  The request that a dictionary on the heap stands for: its keys whose values are lists
  of sources, with these sources. The exception of \<open>preprocess\<close> formats the body in
  the heap of that moment.
\<close>

definition body_view :: "('j, 'src, 'px, 's) heap \<Rightarrow> addr \<Rightarrow> (string \<rightharpoonup> 'src list)" where
  "body_view h body =
     (case deref h body of
        Some (PyDict kvs) \<Rightarrow>
          (\<lambda>k. case map_of kvs k of
                 None \<Rightarrow> None
               | Some l \<Rightarrow> (case deref h l of Some (PyList xs) \<Rightarrow> srcs_of xs | _ \<Rightarrow> None))
      | _ \<Rightarrow> Map.empty)"

definition preprocess_h ::
  "('src, 'px) libs \<Rightarrow> addr \<Rightarrow> addr \<Rightarrow> ('j, 'src, 'px, 's) heap
     \<Rightarrow> (py_error + addr) \<times> ('j, 'src, 'px, 's) heap" where
  "preprocess_h L slf body h =
     (case preprocess_try_h L slf body h of
        (Inl _, h') \<Rightarrow> (Inl (Exception (''received: '' @ body_str L (body_view h' body))), h')
      | (Inr output, h') \<Rightarrow> (Inr output, h'))"

text \<open>
  \<open>predict\<close> reads the list under \<open>'instances'\<close> of its argument and \<open>self.model\<close>, and
  calls the predictor on the arrays of that list (the predictor of this model takes
  arrays only). \<open>postprocess\<close> is called on \<open>self\<close> and reads no object. Neither has a
  statement that changes an object.
\<close>

definition predict_h ::
  "addr \<Rightarrow> addr \<Rightarrow> ('j, 'src, 'px, 's) heap
     \<Rightarrow> (py_error + 's list list) \<times> ('j, 'src, 'px, 's) heap" where
  "predict_h slf data h =
     (case dict_get_items h data ''instances'' of
        Inl e \<Rightarrow> (Inl e, h)
      | Inr images \<Rightarrow>
          (case self_of h slf of
             Inl e \<Rightarrow> (Inl e, h)
           | Inr self \<Rightarrow>
               (case model self of
                  None \<Rightarrow> (Inl AttributeError, h)
                | Some m \<Rightarrow>
                    (case arrs_of images of
                       None \<Rightarrow> (Inl TypeError, h)
                     | Some arrays \<Rightarrow> (m arrays, h)))))"

definition postprocess_h ::
  "addr \<Rightarrow> 's list list \<Rightarrow> ('j, 'src, 'px, 's::linorder) heap
     \<Rightarrow> (py_error + (string \<rightharpoonup> 's)) \<times> ('j, 'src, 'px, 's) heap" where
  "postprocess_h slf predicted_probability h =
     (case self_of h slf of
        Inl e \<Rightarrow> (Inl e, h)
      | Inr self \<Rightarrow> (postprocess self predicted_probability, h))"

text \<open>One request on the heap: the three hooks one after the other, as in \<open>pipeline\<close>.\<close>

definition pipeline_h ::
  "('src, 'px) libs \<Rightarrow> addr \<Rightarrow> addr \<Rightarrow> ('j, 'src, 'px, 's::linorder) heap
     \<Rightarrow> (py_error + (string \<rightharpoonup> 's)) \<times> ('j, 'src, 'px, 's) heap" where
  "pipeline_h L slf body h =
     (case preprocess_h L slf body h of
        (Inl e, h1) \<Rightarrow> (Inl e, h1)
      | (Inr data, h1) \<Rightarrow>
          (case predict_h slf data h1 of
             (Inl e, h2) \<Rightarrow> (Inl e, h2)
           | (Inr predicted_probability, h2) \<Rightarrow> postprocess_h slf predicted_probability h2))"

text \<open>
  A request body as the hosting runtime hands it over: a dictionary on the heap all of
  whose values are lists of image sources.
\<close>

definition request_ok :: "('j, 'src, 'px, 's) heap \<Rightarrow> addr \<Rightarrow> bool" where
  "request_ok h body \<longleftrightarrow>
     (case deref h body of
        Some (PyDict kvs) \<Rightarrow>
          list_all (\<lambda>kv. case deref h (snd kv) of
                           Some (PyList xs) \<Rightarrow> srcs_of xs \<noteq> None
                         | _ \<Rightarrow> False) kvs
      | _ \<Rightarrow> False)"

text \<open>
  The heap while the loop of \<open>preprocess\<close> runs on a heap \<open>h0\<close>: the objects of \<open>h0\<close>,
  then the list of \<open>output\<close> with the arrays appended so far, then \<open>output\<close> itself.
\<close>

definition during ::
  "('j, 'src, 'px, 's) heap \<Rightarrow> 'px ndarray list \<Rightarrow> ('j, 'src, 'px, 's) heap" where
  "during h0 acc = h0 @ [PyList (map Arr acc), PyDict [(''instances'', length h0)]]"

subsection \<open>Python's \<open>int\<close> of a string\<close>

text \<open>
  \<open>int(s)\<close> in base 10 on an ASCII string: whitespace around the literal is skipped, one
  sign is allowed, then decimal digits with single underscores between digits. Anything
  else raises \<open>ValueError\<close>, which is \<open>None\<close> here. Digits outside ASCII and the limit
  that later Python versions put on the length of a literal are left out.
\<close>

definition is_space :: "char \<Rightarrow> bool" where
  "is_space c \<longleftrightarrow> c \<in> set [CHR '' '', CHR 0x09, CHR 0x0A, CHR 0x0B, CHR 0x0C, CHR 0x0D]"

definition strip :: "string \<Rightarrow> string" where
  "strip s = dropWhile is_space (rev (dropWhile is_space (rev s)))"

definition digit_val :: "char \<Rightarrow> nat option" where
  "digit_val c =
     map_of [(CHR ''0'', 0), (CHR ''1'', 1), (CHR ''2'', 2), (CHR ''3'', 3), (CHR ''4'', 4),
             (CHR ''5'', 5), (CHR ''6'', 6), (CHR ''7'', 7), (CHR ''8'', 8), (CHR ''9'', 9)] c"

fun parse_digits :: "nat \<Rightarrow> string \<Rightarrow> nat option" where
  "parse_digits acc [] = Some acc"
| "parse_digits acc [c] =
     (case digit_val c of None \<Rightarrow> None | Some v \<Rightarrow> Some (10 * acc + v))"
| "parse_digits acc (c # d # cs) =
     (if c = CHR ''_''
      then (case digit_val d of None \<Rightarrow> None | Some v \<Rightarrow> parse_digits (10 * acc + v) cs)
      else (case digit_val c of None \<Rightarrow> None | Some v \<Rightarrow> parse_digits (10 * acc + v) (d # cs)))"

definition parse_nat :: "string \<Rightarrow> nat option" where
  "parse_nat s =
     (case s of
        [] \<Rightarrow> None
      | c # cs \<Rightarrow> (case digit_val c of None \<Rightarrow> None | Some v \<Rightarrow> parse_digits v cs))"

definition py_int :: "string \<Rightarrow> int option" where
  "py_int s =
     (case strip s of
        [] \<Rightarrow> None
      | c # cs \<Rightarrow>
          if c = CHR ''-'' then map_option (\<lambda>n. - int n) (parse_nat cs)
          else if c = CHR ''+'' then map_option int (parse_nat cs)
          else map_option int (parse_nat (c # cs)))"

text \<open>The decimal literal of an integer, as Python's \<open>str\<close> prints it.\<close>

definition digit_char :: "nat \<Rightarrow> char" where
  "digit_char d = ''0123456789'' ! d"

fun nat_str :: "nat \<Rightarrow> string" where
  "nat_str n = (if n < 10 then [digit_char n] else nat_str (n div 10) @ [digit_char (n mod 10)])"

declare nat_str.simps [simp del]

definition int_str :: "int \<Rightarrow> string" where
  "int_str i = (if i < 0 then CHR ''-'' # nat_str (nat (- i)) else nat_str (nat i))"

subsection \<open>\<open>__init__\<close> and \<open>load\<close>\<close>

text \<open>
  What the constructor reads: the environment variables, the files that can be opened
  for reading (with their contents), and \<open>json.load\<close>, which raises or returns the
  parsed value (\<open>None\<close> for JSON's \<open>null\<close>).
\<close>

record 'j world =
  environ :: "string \<rightharpoonup> string"
  files :: "string \<rightharpoonup> string"
  json_load :: "string \<Rightarrow> py_error + 'j option"

text \<open>\<open>environ.get(key, default)\<close>.\<close>

definition environ_get :: "'j world \<Rightarrow> string \<Rightarrow> string \<Rightarrow> string" where
  "environ_get w key dflt = (case environ w key of None \<Rightarrow> dflt | Some v \<Rightarrow> v)"

text \<open>
  The body of the \<open>try\<close> in the constructor:
  \<^verbatim>\<open>
  with open(environ['classes_map'], 'r') as f:
      self.classes = json.load(f)
  \<close>
\<close>

definition load_classes :: "'j world \<Rightarrow> py_error + 'j option" where
  "load_classes w =
     (case environ w ''classes_map'' of
        None \<Rightarrow> Inl KeyError
      | Some path \<Rightarrow>
          (case files w path of
             None \<Rightarrow> Inl OSError
           | Some f \<Rightarrow> json_load w f))"

text \<open>
  \<^verbatim>\<open>
  def __init__(self, name: str, model_dir: str):
      super().__init__(name, model_dir)
      self.IMAGE_WIDTH = int(environ.get('IMAGE_WIDTH', '128'))
      self.IMAGE_HEIGHT = int(environ.get('IMAGE_HEIGHT', '128'))
      try:
          with open(environ['classes_map'], 'r') as f:
              self.classes = json.load(f)
      except:
          self.classes = None
  \<close>
  The two \<open>int\<close> calls stand before the \<open>try\<close>: their \<open>ValueError\<close> leaves the
  constructor. The base class's constructor stores \<open>name\<close> and \<open>model_dir\<close> and sets no
  model.
\<close>

definition init ::
  "'j world \<Rightarrow> string \<Rightarrow> string \<Rightarrow> py_error + ('j, 'px, 's) TFModel" where
  "init w nm dir =
     (case py_int (environ_get w ''IMAGE_WIDTH'' ''128'') of
        None \<Rightarrow> Inl ValueError
      | Some width \<Rightarrow>
          (case py_int (environ_get w ''IMAGE_HEIGHT'' ''128'') of
             None \<Rightarrow> Inl ValueError
           | Some height \<Rightarrow>
               Inr \<lparr>name = nm, model_dir = dir,
                    IMAGE_WIDTH = width, IMAGE_HEIGHT = height,
                    classes = (case load_classes w of Inl _ \<Rightarrow> None | Inr c \<Rightarrow> c),
                    model = None\<rparr>))"

text \<open>
  \<^verbatim>\<open>
  def load(self):
      model_file, extra_data = self.get_model('.h5')
      self.model = load_model(model_file)
  \<close>
  \<open>get_model\<close> (of the base class) and Keras's \<open>load_model\<close> are parameters.
\<close>

record ('px, 's) model_store =
  get_model :: "string \<Rightarrow> string \<Rightarrow> py_error + string"
  load_model :: "string \<Rightarrow> py_error + ('px, 's) predictor"

definition load ::
  "('px, 's) model_store \<Rightarrow> ('j, 'px, 's) TFModel \<Rightarrow> py_error + ('j, 'px, 's) TFModel" where
  "load S self =
     (case get_model S (model_dir self) ''.h5'' of
        Inl e \<Rightarrow> Inl e
      | Inr model_file \<Rightarrow>
          (case load_model S model_file of
             Inl e \<Rightarrow> Inl e
           | Inr m \<Rightarrow> Inr (self\<lparr>model := Some m\<rparr>)))"

subsection \<open>Values of a parsed literal\<close>

text \<open>The number that a string of decimal digits denotes, read from the left.\<close>

definition digits_value :: "nat \<Rightarrow> string \<Rightarrow> nat" where
  "digits_value acc ds = foldl (\<lambda>a c. 10 * a + the (digit_val c)) acc ds"

subsection \<open>Example values\<close>

text \<open>
  A small instance of the collaborators, on which the hooks can be evaluated: image
  sources are numbers; source 0 is not an image, source 1 is a 2 x 2 RGB image, source
  2 is a 3 x 1 greyscale image and every other source is a 4 x 2 RGB image. Pixels are
  numbers; resampling fills the new size with zeros, and has no memory for an image of
  more than 4096 values.
\<close>

definition rgb_image :: "nat pil_image" where
  "rgb_image = \<lparr>img_size = (2, 2), bands = 3, pixels = [1, 2, 3, 4, 5, 6, 7, 8, 9, 10, 11, 12]\<rparr>"

definition grey_image :: "nat pil_image" where
  "grey_image = \<lparr>img_size = (3, 1), bands = 1, pixels = [7, 8, 9]\<rparr>"

definition wide_image :: "nat pil_image" where
  "wide_image = \<lparr>img_size = (4, 2), bands = 3, pixels = replicate 24 5\<rparr>"

definition demo_open :: "nat \<Rightarrow> py_error + nat pil_image" where
  "demo_open src =
     (if src = 0 then Inl OSError
      else if src = 1 then Inr rgb_image
      else if src = 2 then Inr grey_image
      else Inr wide_image)"

definition demo_resample :: "nat pil_image \<Rightarrow> nat \<times> nat \<Rightarrow> py_error + nat list" where
  "demo_resample img sz =
     (if 4096 < fst sz * snd sz * bands img then Inl MemoryError
      else Inr (replicate (fst sz * snd sz * bands img) 0))"

definition demo_str :: "(string \<rightharpoonup> nat list) \<Rightarrow> string" where
  "demo_str body =
     (case body ''instances'' of
        None \<Rightarrow> ''{}''
      | Some srcs \<Rightarrow> ''{instances: ['' @ concat (map (\<lambda>n. nat_str n @ '','') srcs) @ '']}'')"

definition demo_libs :: "(nat, nat) libs" where
  "demo_libs = \<lparr>Image_open = demo_open, resample = demo_resample, body_str = demo_str\<rparr>"

text \<open>A predictor that scores every image of the one tensor it is given alike.\<close>

definition demo_predictor :: "(nat, real) predictor" where
  "demo_predictor images =
     (case images of
        [t] \<Rightarrow> Inr (replicate (hd (shape t)) [0.1, 0.9, 0.3])
      | _ \<Rightarrow> Inl ValueError)"

definition demo_self :: "(string, nat, real) TFModel" where
  "demo_self =
     \<lparr>name = ''mask'', model_dir = ''models'', IMAGE_WIDTH = 4, IMAGE_HEIGHT = 2,
      classes = None, model = Some demo_predictor\<rparr>"

text \<open>A request with two images of the same mode.\<close>

definition demo_body :: "string \<rightharpoonup> nat list" where
  "demo_body = [''instances'' \<mapsto> [1, 3]]"

text \<open>The same request as objects: the adapter, the list of sources and the body.\<close>

definition demo_heap :: "(string, nat, nat, real) heap" where
  "demo_heap = [PySelf demo_self, PyList [Src 1, Src 3], PyDict [(''instances'', 1)]]"

text \<open>Environments: one that sets the two sizes, one whose width is not a number.\<close>

definition demo_world :: "string world" where
  "demo_world =
     \<lparr>environ = [''IMAGE_WIDTH'' \<mapsto> ''4'', ''IMAGE_HEIGHT'' \<mapsto> ''2''],
      files = Map.empty,
      json_load = (\<lambda>f. if f = ''null'' then Inr None else Inr (Some f))\<rparr>"

definition bad_width_world :: "string world" where
  "bad_width_world = demo_world\<lparr>environ := [''IMAGE_WIDTH'' \<mapsto> ''abc'']\<rparr>"

definition bad_height_world :: "string world" where
  "bad_height_world =
     \<lparr>environ = [''IMAGE_HEIGHT'' \<mapsto> ''12px'', ''classes_map'' \<mapsto> ''classes.json''],
      files = [''classes.json'' \<mapsto> ''{}''],
      json_load = (\<lambda>f. if f = ''null'' then Inr None else Inr (Some f))\<rparr>"

section \<open>Properties\<close>

subsection \<open>Decimal literals are read back\<close>

lemma digit_val_digit_char: "d < 10 \<Longrightarrow> digit_val (digit_char d) = Some d"
proof -
  assume "d < 10"
  then have "d \<in> {0, 1, 2, 3, 4, 5, 6, 7, 8, 9}" by auto
  then show ?thesis
    by (auto simp: digit_val_def digit_char_def)
qed

lemma digit_val_Some_props:
  "digit_val c = Some v \<Longrightarrow> c \<noteq> CHR ''_'' \<and> c \<noteq> CHR ''-'' \<and> c \<noteq> CHR ''+'' \<and> \<not> is_space c"
  by (auto simp: digit_val_def is_space_def split: if_splits)

lemma parse_digits_all_digits:
  "list_all (\<lambda>c. digit_val c \<noteq> None) ds \<Longrightarrow> parse_digits acc ds = Some (digits_value acc ds)"
proof (induction acc ds rule: parse_digits.induct)
  case (1 acc)
  then show ?case by (simp add: digits_value_def)
next
  case (2 acc c)
  then show ?case by (auto simp: digits_value_def)
next
  case (3 acc c d cs)
  then obtain v where v: "digit_val c = Some v" by auto
  then have "c \<noteq> CHR ''_''" using digit_val_Some_props by blast
  with 3 v show ?case by (auto simp: digits_value_def)
qed

lemma nat_str_digits: "list_all (\<lambda>c. digit_val c \<noteq> None) (nat_str n)"
proof (induction n rule: nat_str.induct)
  case (1 n)
  show ?case
  proof (cases "n < 10")
    case True
    then show ?thesis by (subst nat_str.simps) (simp add: digit_val_digit_char)
  next
    case False
    then have "digit_val (digit_char (n mod 10)) = Some (n mod 10)"
      by (simp add: digit_val_digit_char)
    with False 1 show ?thesis by (subst nat_str.simps) simp
  qed
qed

lemma nat_str_value: "digits_value 0 (nat_str n) = n"
proof (induction n rule: nat_str.induct)
  case (1 n)
  show ?case
  proof (cases "n < 10")
    case True
    then show ?thesis
      by (subst nat_str.simps) (simp add: digits_value_def digit_val_digit_char)
  next
    case False
    then have "digit_val (digit_char (n mod 10)) = Some (n mod 10)"
      by (simp add: digit_val_digit_char)
    with False 1 show ?thesis
      by (subst nat_str.simps) (simp add: digits_value_def)
  qed
qed

lemma nat_str_nonempty: "nat_str n \<noteq> []"
  by (subst nat_str.simps) simp

lemma parse_nat_nat_str: "parse_nat (nat_str n) = Some n"
proof -
  obtain c cs where cs: "nat_str n = c # cs"
    using nat_str_nonempty [of n] by (cases "nat_str n") auto
  have all: "list_all (\<lambda>c. digit_val c \<noteq> None) (c # cs)"
    using nat_str_digits [of n] cs by simp
  then obtain v where v: "digit_val c = Some v" by auto
  have "parse_digits v cs = Some (digits_value v cs)"
    using all by (simp add: parse_digits_all_digits)
  moreover have "digits_value v cs = digits_value 0 (c # cs)"
    using v by (simp add: digits_value_def)
  ultimately show ?thesis
    using cs v nat_str_value [of n] by (simp add: parse_nat_def)
qed

lemma strip_id:
  assumes "s \<noteq> []" "\<not> is_space (hd s)" "\<not> is_space (last s)"
  shows "strip s = s"
proof -
  have "dropWhile is_space (rev s) = rev s"
    using assms by (cases "rev s") (auto simp: last_rev [symmetric] hd_rev)
  moreover have "dropWhile is_space s = s"
    using assms by (cases s) auto
  ultimately show ?thesis by (simp add: strip_def)
qed

lemma nat_str_ends:
  "\<not> is_space (hd (nat_str n)) \<and> \<not> is_space (last (nat_str n))
   \<and> hd (nat_str n) \<noteq> CHR ''-'' \<and> hd (nat_str n) \<noteq> CHR ''+''"
proof -
  have "\<forall>c \<in> set (nat_str n). digit_val c \<noteq> None"
    using nat_str_digits [of n] by (simp add: list_all_iff)
  moreover have "hd (nat_str n) \<in> set (nat_str n)" "last (nat_str n) \<in> set (nat_str n)"
    using nat_str_nonempty by auto
  ultimately show ?thesis
    using digit_val_Some_props by blast
qed

lemma py_int_int_str: "py_int (int_str i) = Some i"
proof (cases "i < 0")
  case True
  let ?s = "CHR ''-'' # nat_str (nat (- i))"
  have "strip ?s = ?s"
    using nat_str_ends [of "nat (- i)"] nat_str_nonempty [of "nat (- i)"]
    by (intro strip_id) (auto simp: is_space_def)
  with True show ?thesis
    by (simp add: py_int_def int_str_def parse_nat_nat_str)
next
  case False
  obtain c cs where cs: "nat_str (nat i) = c # cs"
    using nat_str_nonempty [of "nat i"] by (cases "nat_str (nat i)") auto
  have "strip (nat_str (nat i)) = nat_str (nat i)"
    using nat_str_ends [of "nat i"] nat_str_nonempty by (intro strip_id) auto
  moreover have "c \<noteq> CHR ''-''" "c \<noteq> CHR ''+''"
    using nat_str_ends [of "nat i"] cs by auto
  moreover have "parse_nat (c # cs) = Some (nat i)"
    using parse_nat_nat_str [of "nat i"] cs by simp
  ultimately show ?thesis
    using False cs by (simp add: py_int_def int_str_def)
qed

subsection \<open>Shapes through \<open>preprocess\<close>\<close>









text \<open>
  C3, as the spec states it: a body without the \<open>instances\<close> key is preprocessed into a
  tensor with leading dimension 0. It is not: the instance list is empty, \<open>np.vstack\<close>
  raises on the empty list and the handler turns that into the generic exception.
\<close>

theorem preprocess_missing_key_raises:
  "preprocess demo_libs demo_self Map.empty = Inl (Exception ''received: {}'')"
  by (simp add: demo_libs_def demo_str_def preprocess_def preprocess_try_def
      get_or_empty_def vstack_def)

text \<open>
  C3, amended: for every body that lacks the \<open>instances\<close> key, \<open>preprocess\<close> treats the
  instance list as empty and raises the generic exception whose message is
  \<open>received: \<close> followed by the body.
\<close>

theorem preprocess_missing_key:
  "body ''instances'' = None
   \<Longrightarrow> preprocess L self body = Inl (Exception (''received: '' @ body_str L body))"
  by (simp add: preprocess_def preprocess_try_def get_or_empty_def vstack_def)

theorem preprocess_missing_key_witness:
  "preprocess demo_libs demo_self [''other'' \<mapsto> [1]]
     = Inl (Exception (''received: '' @ body_str demo_libs [''other'' \<mapsto> [1]]))"
  using preprocess_missing_key [of "[''other'' \<mapsto> [1]]" demo_libs demo_self]
  by simp

subsection \<open>Failures of \<open>preprocess\<close>\<close>

lemma preprocess_loop_element_fails:
  assumes "s \<in> set srcs"
    and "(\<exists>e. Image_open L s = Inl e)
         \<or> (\<exists>img e. Image_open L s = Inr img
               \<and> resize L img (IMAGE_WIDTH self, IMAGE_HEIGHT self) = Inl e)"
  shows "\<exists>e. preprocess_loop L self srcs acc = Inl e"
  using assms(1)
proof (induction srcs arbitrary: acc)
  case Nil
  then show ?case by simp
next
  case (Cons x srcs)
  show ?case
  proof (cases "Image_open L x")
    case (Inl e)
    then show ?thesis by simp
  next
    case open_ok: (Inr img)
    show ?thesis
    proof (cases "resize L img (IMAGE_WIDTH self, IMAGE_HEIGHT self)")
      case (Inl e)
      with open_ok show ?thesis by simp
    next
      case (Inr img')
      with open_ok assms(2) have "x \<noteq> s" by auto
      with Cons.prems have "s \<in> set srcs" by simp
      from Cons.IH [OF this] open_ok Inr show ?thesis by simp
    qed
  qed
qed

lemma preprocess_try_generic:
  "preprocess_try L self body = Inl e
   \<Longrightarrow> preprocess L self body = Inl (Exception (''received: '' @ body_str L body))"
  by (simp add: preprocess_def)

text \<open>
  C4: whatever is raised inside the \<open>try\<close> of \<open>preprocess\<close>, the hook raises the one
  generic exception whose message is \<open>received: \<close> followed by the request body, and
  returns nothing. This is so in particular when a source of the batch is not an image
  (\<open>Image.open\<close> raises), when an image of the batch cannot be resized, and when the
  arrays cannot be stacked.
\<close>

theorem preprocess_failure_generic:
  "(preprocess_try L self body = Inl e
      \<longrightarrow> preprocess L self body = Inl (Exception (''received: '' @ body_str L body)))
   \<and> (body ''instances'' = Some srcs \<and> s \<in> set srcs \<and> Image_open L s = Inl e
      \<longrightarrow> preprocess L self body = Inl (Exception (''received: '' @ body_str L body)))
   \<and> (body ''instances'' = Some srcs \<and> s \<in> set srcs \<and> Image_open L s = Inr img
        \<and> resize L img (IMAGE_WIDTH self, IMAGE_HEIGHT self) = Inl e
      \<longrightarrow> preprocess L self body = Inl (Exception (''received: '' @ body_str L body)))
   \<and> (preprocess_loop L self (get_or_empty body ''instances'') [] = Inr arrays
        \<and> vstack arrays = Inl e
      \<longrightarrow> preprocess L self body = Inl (Exception (''received: '' @ body_str L body)))"
proof -
  have elem: "preprocess L self body = Inl (Exception (''received: '' @ body_str L body))"
    if "body ''instances'' = Some srcs" "s \<in> set srcs"
      "(\<exists>e. Image_open L s = Inl e)
         \<or> (\<exists>img e. Image_open L s = Inr img
               \<and> resize L img (IMAGE_WIDTH self, IMAGE_HEIGHT self) = Inl e)"
  proof -
    from preprocess_loop_element_fails [OF that(2,3), of "[]"] obtain e' where
      "preprocess_loop L self srcs [] = Inl e'" by blast
    with that(1) have "preprocess_try L self body = Inl e'"
      by (simp add: preprocess_try_def get_or_empty_def)
    then show ?thesis by (rule preprocess_try_generic)
  qed
  have stack: "preprocess L self body = Inl (Exception (''received: '' @ body_str L body))"
    if "preprocess_loop L self (get_or_empty body ''instances'') [] = Inr arrays"
      "vstack arrays = Inl e"
  proof -
    from that have "preprocess_try L self body = Inl e"
      by (simp add: preprocess_try_def)
    then show ?thesis by (rule preprocess_try_generic)
  qed
  show ?thesis
    using preprocess_try_generic [of L self body e] elem stack by blast
qed

theorem preprocess_failure_generic_witness:
  "preprocess demo_libs demo_self [''instances'' \<mapsto> [1, 0, 3]]
     = Inl (Exception ''received: {instances: [1,0,3,]}'')"
proof -
  have "Image_open demo_libs 0 = Inl OSError"
    by (simp add: demo_libs_def demo_open_def)
  with preprocess_failure_generic [of demo_libs demo_self "[''instances'' \<mapsto> [1, 0, 3]]"
      OSError "[1, 0, 3]" 0]
  show ?thesis
    by (simp add: demo_libs_def demo_str_def nat_str.simps digit_char_def)
qed

subsection \<open>Results of \<open>postprocess\<close> and \<open>predict\<close>\<close>

text \<open>
  C2, as the spec states it: every predictor output with at least one row gives the
  maximum of its first row. An output whose first row is empty (shape \<open>(1, 0)\<close>) has
  one row, and \<open>np.max\<close> raises \<open>ValueError\<close> on it.
\<close>

theorem postprocess_empty_row_raises: "postprocess demo_self [[]] = Inl ValueError"
  by (simp add: postprocess_def np_max_def)

text \<open>
  C2, amended: for every predictor output with at least one row whose first row is not
  empty, \<open>postprocess\<close> returns \<open>{'Mask probability': m}\<close> where \<open>m\<close> is the maximum of
  the first row; \<open>[[0.1, 0.9, 0.3]]\<close> gives \<open>{'Mask probability': 0.9}\<close>.
\<close>

theorem postprocess_max:
  "row \<noteq> []
   \<Longrightarrow> postprocess self (row # rest) = Inr [''Mask probability'' \<mapsto> Max (set row)]"
proof -
  assume "row \<noteq> []"
  then obtain x xs where row: "row = x # xs" by (cases row) auto
  have "fold max xs x = Max (set row)"
    unfolding row by (rule Max.set_eq_fold [symmetric])
  then show ?thesis
    by (simp add: postprocess_def np_max_def row)
qed

theorem postprocess_max_witness:
  "postprocess demo_self [[0.1, 0.9, 0.3]] = Inr [''Mask probability'' \<mapsto> 0.9]"
  using postprocess_max [of "[0.1, 0.9, 0.3 :: real]" demo_self "[]"]
  by simp

text \<open>
  C7: the payload of \<open>postprocess\<close> does not depend on the \<open>classes\<close> field: two adapters
  that differ only there return the same payload for the same predictor output.
\<close>

theorem postprocess_ignores_classes:
  "postprocess (self\<lparr>classes := c\<rparr>) predicted_probability
     = postprocess self predicted_probability"
  by (simp add: postprocess_def)

theorem postprocess_ignores_classes_witness:
  "postprocess (demo_self\<lparr>classes := Some ''{0: mask}''\<rparr>) [[0.1, 0.9, 0.3]]
     = postprocess demo_self [[0.1, 0.9, 0.3]]"
  using postprocess_ignores_classes [of "Some ''{0: mask}''" demo_self "[[0.1, 0.9, 0.3]]"]
  by simp

text \<open>
  C8: with a loaded predictor, \<open>predict\<close> calls it on the \<open>instances\<close> value of the data
  (the empty list when the key is absent) and returns what the predictor returns or
  raises, unchanged.
\<close>

theorem predict_forwards:
  "model self = Some m
   \<Longrightarrow> predict self data = m (case data ''instances'' of None \<Rightarrow> [] | Some images \<Rightarrow> images)"
  by (simp add: predict_def get_or_empty_def)

theorem predict_forwards_witness:
  "predict demo_self Map.empty = demo_predictor []
   \<and> predict demo_self [''instances'' \<mapsto> [\<lparr>shape = [2, 1], elems = [5, 6]\<rparr>]]
       = Inr [[0.1, 0.9, 0.3], [0.1, 0.9, 0.3]]"
  using predict_forwards [of demo_self demo_predictor Map.empty]
    predict_forwards [of demo_self demo_predictor
      "[''instances'' \<mapsto> [\<lparr>shape = [2, 1], elems = [5, 6]\<rparr>]]"]
  by (simp add: demo_self_def demo_predictor_def numeral_2_eq_2)

subsection \<open>Repeated requests\<close>

lemma deref_append: "a < length h \<Longrightarrow> deref (h @ ys) a = deref h a"
  by (simp add: deref_def nth_append)

lemma deref_Some_less: "deref h a = Some obj \<Longrightarrow> a < length h"
  by (simp add: deref_def split: if_splits)

lemma self_of_append: "self_of h slf = Inr self \<Longrightarrow> self_of (h @ ys) slf = Inr self"
proof -
  assume a: "self_of h slf = Inr self"
  then have "slf < length h"
    by (auto simp: self_of_def deref_def split: if_splits)
  with a show ?thesis by (simp add: self_of_def deref_append)
qed

lemma srcs_of_Some: "srcs_of xs = Some ss \<Longrightarrow> xs = map Src ss"
  by (induction xs arbitrary: ss rule: srcs_of.induct) auto

lemma arrs_of_map_Arr: "arrs_of (map Arr as) = Some as"
  by (induction as) auto

lemma request_ok_entry:
  assumes "request_ok h body" and "deref h body = Some (PyDict kvs)" and "map_of kvs k = Some l"
  shows "\<exists>ss. deref h l = Some (PyList (map Src ss)) \<and> l < length h"
proof -
  from assms(3) have "(k, l) \<in> set kvs" by (rule map_of_SomeD)
  with assms(1,2) have "case deref h l of Some (PyList xs) \<Rightarrow> srcs_of xs \<noteq> None | _ \<Rightarrow> False"
    by (auto simp: request_ok_def list_all_iff)
  then obtain xs ss where "deref h l = Some (PyList xs)" "srcs_of xs = Some ss"
    by (auto split: option.splits pyobj.splits)
  then show ?thesis
    using srcs_of_Some deref_Some_less by blast
qed

lemma srcs_of_map_Src: "srcs_of (map Src ss) = Some ss"
  by (induction ss) auto

lemma body_view_append:
  assumes "request_ok h body"
  shows "body_view (h @ ys) body = body_view h body"
proof -
  from assms obtain kvs where kvs: "deref h body = Some (PyDict kvs)"
    by (auto simp: request_ok_def split: option.splits pyobj.splits)
  then have b: "deref (h @ ys) body = Some (PyDict kvs)"
    using deref_Some_less deref_append by metis
  have "(case map_of kvs k of None \<Rightarrow> None
          | Some l \<Rightarrow> (case deref (h @ ys) l of Some (PyList xs) \<Rightarrow> srcs_of xs | _ \<Rightarrow> None))
      = (case map_of kvs k of None \<Rightarrow> None
          | Some l \<Rightarrow> (case deref h l of Some (PyList xs) \<Rightarrow> srcs_of xs | _ \<Rightarrow> None))" for k
  proof (cases "map_of kvs k")
    case None
    then show ?thesis by simp
  next
    case (Some l)
    from request_ok_entry [OF assms kvs Some] have "l < length h" by blast
    with Some show ?thesis by (simp add: deref_append)
  qed
  then show ?thesis
    by (simp add: body_view_def kvs b)
qed

lemma request_ok_append:
  assumes "request_ok h body"
  shows "request_ok (h @ ys) body"
proof -
  from assms obtain kvs where kvs: "deref h body = Some (PyDict kvs)"
    by (auto simp: request_ok_def split: option.splits pyobj.splits)
  then have b: "deref (h @ ys) body = Some (PyDict kvs)"
    using deref_Some_less deref_append by metis
  have "case deref (h @ ys) (snd kv) of Some (PyList xs) \<Rightarrow> srcs_of xs \<noteq> None | _ \<Rightarrow> False"
    if "kv \<in> set kvs" for kv
  proof -
    from that assms kvs
    have ok: "case deref h (snd kv) of Some (PyList xs) \<Rightarrow> srcs_of xs \<noteq> None | _ \<Rightarrow> False"
      by (auto simp: request_ok_def list_all_iff)
    then have "snd kv < length h"
      by (auto simp: deref_def split: if_splits)
    with ok show ?thesis by (simp add: deref_append)
  qed
  then show ?thesis
    by (simp add: request_ok_def b list_all_iff)
qed

lemma dict_get_items_body:
  assumes "request_ok h body"
  shows "dict_get_items (h @ ys) body ''instances''
           = Inr (map Src (get_or_empty (body_view h body) ''instances''))"
proof -
  from assms obtain kvs where kvs: "deref h body = Some (PyDict kvs)"
    by (auto simp: request_ok_def split: option.splits pyobj.splits)
  then have b: "deref (h @ ys) body = Some (PyDict kvs)"
    using deref_Some_less deref_append by metis
  show ?thesis
  proof (cases "map_of kvs ''instances''")
    case None
    then show ?thesis
      by (simp add: dict_get_items_def b body_view_def kvs get_or_empty_def)
  next
    case (Some l)
    from request_ok_entry [OF assms kvs Some] obtain ss where
      "deref h l = Some (PyList (map Src ss))" "l < length h" by blast
    with Some show ?thesis
      by (simp add: dict_get_items_def b body_view_def kvs get_or_empty_def deref_append
          srcs_of_map_Src)
  qed
qed

lemma during_facts:
  "self_of h0 slf = Inr self \<Longrightarrow> self_of (during h0 acc) slf = Inr self"
  "dict_item (during h0 acc) (Suc (length h0)) ''instances'' = Inr (length h0)"
  "list_append (during h0 acc) (length h0) (Arr x) = Inr (during h0 (acc @ [x]))"
  "list_arrays (during h0 acc) (length h0) = Inr acc"
  by (simp_all add: during_def self_of_append dict_item_def list_append_def list_arrays_def
      deref_def nth_append arrs_of_map_Arr)

lemma preprocess_loop_h_refines:
  assumes "self_of h0 slf = Inr self"
  shows "\<exists>acc'. preprocess_loop_h L slf (Suc (length h0)) (map Src srcs) (during h0 acc) =
            (case preprocess_loop L self srcs acc of Inl e \<Rightarrow> Inl e | Inr _ \<Rightarrow> Inr (),
             during h0 acc')
          \<and> (\<forall>arrays. preprocess_loop L self srcs acc = Inr arrays \<longrightarrow> acc' = arrays)"
proof (induction srcs arbitrary: acc)
  case Nil
  show ?case by auto
next
  case (Cons s srcs)
  show ?case
  proof (cases "Image_open L s")
    case (Inl e)
    then show ?thesis by (auto simp: open_item_def)
  next
    case op: (Inr img)
    show ?thesis
    proof (cases "resize L img (IMAGE_WIDTH self, IMAGE_HEIGHT self)")
      case (Inl e)
      with op show ?thesis
        by (auto simp: open_item_def during_facts(1) [OF assms])
    next
      case (Inr img')
      with op Cons.IH [of "acc @ [expand_dims0 (img_to_array img')]"] show ?thesis
        by (simp add: open_item_def during_facts(1) [OF assms] during_facts(2,3))
    qed
  qed
qed

lemma after_stack:
  "dict_set (during h0 arrays @ [PyList [Arr stacked]]) (Suc (length h0)) ''instances''
       (Suc (Suc (length h0)))
     = Inr (h0 @ [PyList (map Arr arrays), PyDict [(''instances'', Suc (Suc (length h0)))],
                  PyList [Arr stacked]])"
  by (simp add: dict_set_def during_def deref_def nth_append list_update_append)

lemma after_stack_items:
  "dict_get_items (h0 @ [PyList (map Arr arrays), PyDict [(''instances'', Suc (Suc (length h0)))],
                         PyList [Arr stacked]]) (Suc (length h0)) ''instances''
     = Inr [Arr stacked]"
  by (simp add: dict_get_items_def deref_def nth_append)

lemma preprocess_try_h_refines:
  assumes "self_of h0 slf = Inr self" and "request_ok h0 body"
  shows "\<exists>ys. snd (preprocess_try_h L slf body h0) = h0 @ ys
           \<and> (case preprocess_try L self (body_view h0 body) of
                 Inl e \<Rightarrow> fst (preprocess_try_h L slf body h0) = Inl e
               | Inr out \<Rightarrow>
                   (\<exists>d stacked. fst (preprocess_try_h L slf body h0) = Inr d
                      \<and> out = [''instances'' \<mapsto> [stacked]]
                      \<and> dict_get_items (h0 @ ys) d ''instances'' = Inr [Arr stacked]))"
proof -
  let ?srcs = "get_or_empty (body_view h0 body) ''instances''"
  have h2: "during h0 [] = h0 @ [PyList [], PyDict [(''instances'', length h0)]]"
    by (simp add: during_def)
  have get: "dict_get_items (during h0 []) body ''instances'' = Inr (map Src ?srcs)"
    unfolding h2 by (rule dict_get_items_body [OF assms(2)])
  from preprocess_loop_h_refines [OF assms(1), of L ?srcs "[]"] obtain acc' where
    loop: "preprocess_loop_h L slf (Suc (length h0)) (map Src ?srcs) (during h0 []) =
            (case preprocess_loop L self ?srcs [] of Inl e \<Rightarrow> Inl e | Inr _ \<Rightarrow> Inr (),
             during h0 acc')"
    and acc': "\<forall>arrays. preprocess_loop L self ?srcs [] = Inr arrays \<longrightarrow> acc' = arrays"
    by blast
  note unfold = preprocess_try_h_def alloc_def get [unfolded h2] loop [unfolded h2]
  show ?thesis
  proof (cases "preprocess_loop L self ?srcs []")
    case (Inl e)
    then have "preprocess_try_h L slf body h0 = (Inl e, during h0 acc')"
      by (simp add: unfold)
    with Inl show ?thesis
      by (auto simp: preprocess_try_def during_def)
  next
    case (Inr arrays)
    with acc' have [simp]: "acc' = arrays" by simp
    show ?thesis
    proof (cases "vstack arrays")
      case (Inl e)
      with Inr have "preprocess_try_h L slf body h0 = (Inl e, during h0 arrays)"
        by (simp add: unfold during_facts(2,4))
      with Inl Inr show ?thesis
        by (auto simp: preprocess_try_def during_def)
    next
      case st: (Inr stacked)
      have "length (during h0 arrays) = Suc (Suc (length h0))"
        by (simp add: during_def)
      with st Inr have
        "preprocess_try_h L slf body h0 =
           (Inr (Suc (length h0)),
            h0 @ [PyList (map Arr arrays), PyDict [(''instances'', Suc (Suc (length h0)))],
                  PyList [Arr stacked]])"
        by (simp add: unfold during_facts(2,4) after_stack)
      with st Inr show ?thesis
        using after_stack_items [of h0 arrays stacked]
        by (auto simp: preprocess_try_def)
    qed
  qed
qed

lemma preprocess_h_refines:
  assumes "self_of h0 slf = Inr self" and "request_ok h0 body"
  shows "\<exists>ys. snd (preprocess_h L slf body h0) = h0 @ ys
           \<and> (case preprocess L self (body_view h0 body) of
                 Inl e \<Rightarrow> fst (preprocess_h L slf body h0) = Inl e
               | Inr out \<Rightarrow>
                   (\<exists>d stacked. fst (preprocess_h L slf body h0) = Inr d
                      \<and> out = [''instances'' \<mapsto> [stacked]]
                      \<and> dict_get_items (h0 @ ys) d ''instances'' = Inr [Arr stacked]))"
proof -
  from preprocess_try_h_refines [OF assms, of L] obtain ys where
    ys: "snd (preprocess_try_h L slf body h0) = h0 @ ys"
    and r: "case preprocess_try L self (body_view h0 body) of
                 Inl e \<Rightarrow> fst (preprocess_try_h L slf body h0) = Inl e
               | Inr out \<Rightarrow>
                   (\<exists>d stacked. fst (preprocess_try_h L slf body h0) = Inr d
                      \<and> out = [''instances'' \<mapsto> [stacked]]
                      \<and> dict_get_items (h0 @ ys) d ''instances'' = Inr [Arr stacked])"
    by blast
  obtain r1 h1 where p: "preprocess_try_h L slf body h0 = (r1, h1)"
    by (cases "preprocess_try_h L slf body h0")
  with ys have h1: "h1 = h0 @ ys" by simp
  have view: "body_view (h0 @ ys) body = body_view h0 body"
    by (rule body_view_append [OF assms(2)])
  show ?thesis
  proof (cases "preprocess_try L self (body_view h0 body)")
    case (Inl e)
    with r p have "r1 = Inl e" by simp
    with p h1 Inl view show ?thesis
      by (intro exI [of _ ys]) (simp add: preprocess_h_def preprocess_def)
  next
    case (Inr out)
    with r p obtain d stacked where "r1 = Inr d" "out = [''instances'' \<mapsto> [stacked]]"
      "dict_get_items (h0 @ ys) d ''instances'' = Inr [Arr stacked]"
      by auto
    with p h1 Inr show ?thesis
      by (intro exI [of _ ys]) (simp add: preprocess_h_def preprocess_def)
  qed
qed

lemma pipeline_h_refines:
  assumes "self_of h0 slf = Inr self" and "request_ok h0 body"
  shows "fst (pipeline_h L slf body h0) = pipeline L self (body_view h0 body)
         \<and> (\<exists>ys. snd (pipeline_h L slf body h0) = h0 @ ys)"
proof -
  from preprocess_h_refines [OF assms, of L] obtain ys where
    ys: "snd (preprocess_h L slf body h0) = h0 @ ys"
    and r: "case preprocess L self (body_view h0 body) of
                 Inl e \<Rightarrow> fst (preprocess_h L slf body h0) = Inl e
               | Inr out \<Rightarrow>
                   (\<exists>d stacked. fst (preprocess_h L slf body h0) = Inr d
                      \<and> out = [''instances'' \<mapsto> [stacked]]
                      \<and> dict_get_items (h0 @ ys) d ''instances'' = Inr [Arr stacked])"
    by blast
  obtain r1 h1 where p: "preprocess_h L slf body h0 = (r1, h1)"
    by (cases "preprocess_h L slf body h0")
  with ys have h1: "h1 = h0 @ ys" by simp
  have slf: "self_of (h0 @ ys) slf = Inr self"
    by (rule self_of_append [OF assms(1)])
  show ?thesis
  proof (cases "preprocess L self (body_view h0 body)")
    case (Inl e)
    with r p have "r1 = Inl e" by simp
    with p h1 Inl show ?thesis
      by (simp add: pipeline_h_def pipeline_def)
  next
    case (Inr out)
    with r p obtain d stacked where d: "r1 = Inr d" "out = [''instances'' \<mapsto> [stacked]]"
      "dict_get_items (h0 @ ys) d ''instances'' = Inr [Arr stacked]"
      by auto
    have pr: "predict_h slf d (h0 @ ys) = (predict self out, h0 @ ys)"
      using d slf
      by (simp add: predict_h_def predict_def get_or_empty_def split: option.splits)
    show ?thesis
    proof (cases "predict self out")
      case (Inl e)
      with p h1 Inr d pr show ?thesis
        by (simp add: pipeline_h_def pipeline_def)
    next
      case pp: (Inr predicted)
      with p h1 Inr d pr slf show ?thesis
        by (simp add: pipeline_h_def pipeline_def postprocess_h_def)
    qed
  qed
qed

text \<open>
  C6: with the predictor a function, two invocations of \<open>preprocess\<close>, \<open>predict\<close> and
  \<open>postprocess\<close> on the same body give the same response. Let the heap hold the
  adapter at \<open>slf\<close> and a request body at \<open>body\<close>. Then the second request, run on the
  heap that the first one leaves, returns what the first one returned; the first
  request leaves every object that was there before it as it was (the adapter, the body
  and the lists of the body among them: what it creates and changes are objects of its
  own); and its response is \<open>pipeline\<close> of the adapter and the body as values.
\<close>

theorem pipeline_h_repeatable:
  assumes "self_of h slf = Inr self" and "request_ok h body"
  shows "fst (pipeline_h L slf body (snd (pipeline_h L slf body h))) = fst (pipeline_h L slf body h)
         \<and> take (length h) (snd (pipeline_h L slf body h)) = h
         \<and> fst (pipeline_h L slf body h) = pipeline L self (body_view h body)"
proof -
  from pipeline_h_refines [OF assms, of L] obtain ys where
    first: "fst (pipeline_h L slf body h) = pipeline L self (body_view h body)"
    and ys: "snd (pipeline_h L slf body h) = h @ ys"
    by blast
  have "fst (pipeline_h L slf body (h @ ys)) = pipeline L self (body_view (h @ ys) body)"
    using pipeline_h_refines [OF self_of_append [OF assms(1)] request_ok_append [OF assms(2)]]
    by blast
  then have "fst (pipeline_h L slf body (h @ ys)) = pipeline L self (body_view h body)"
    by (simp add: body_view_append [OF assms(2)])
  with first ys show ?thesis by simp
qed

lemma demo_pipeline:
  "pipeline demo_libs demo_self demo_body = Inr [''Mask probability'' \<mapsto> 0.9]"
  by (simp add: demo_body_def pipeline_def preprocess_def preprocess_try_def get_or_empty_def
      demo_libs_def demo_self_def demo_open_def demo_resample_def rgb_image_def wide_image_def
      resize_def c_int_def img_to_array_def expand_dims0_def vstack_def atleast_2d_def
      same_trailing_def predict_def demo_predictor_def postprocess_def np_max_def)

lemma demo_heap_view: "body_view demo_heap 2 = demo_body"
  by (rule ext) (simp add: body_view_def demo_heap_def deref_def demo_body_def)

theorem pipeline_h_repeatable_witness:
  "fst (pipeline_h demo_libs 0 2 (snd (pipeline_h demo_libs 0 2 demo_heap)))
     = Inr [''Mask probability'' \<mapsto> 0.9]
   \<and> fst (pipeline_h demo_libs 0 2 demo_heap) = Inr [''Mask probability'' \<mapsto> 0.9]"
proof -
  have "self_of demo_heap 0 = Inr demo_self" "request_ok demo_heap 2"
    by (simp_all add: self_of_def request_ok_def demo_heap_def deref_def)
  from pipeline_h_repeatable [OF this, of demo_libs] show ?thesis
    by (simp add: demo_heap_view demo_pipeline)
qed

subsection \<open>The constructor\<close>

lemma py_int_default: "py_int ''128'' = Some 128"
  by (simp add: py_int_def strip_def is_space_def parse_nat_def digit_val_def)

lemma init_reads_sizes:
  assumes "py_int (environ_get w ''IMAGE_WIDTH'' ''128'') = Some a"
    and "py_int (environ_get w ''IMAGE_HEIGHT'' ''128'') = Some b"
  shows "init w nm dir =
           Inr \<lparr>name = nm, model_dir = dir, IMAGE_WIDTH = a, IMAGE_HEIGHT = b,
                classes = (case load_classes w of Inl _ \<Rightarrow> None | Inr c \<Rightarrow> c),
                model = None\<rparr>"
  using assms by (simp add: init_def)

text \<open>
  C5, as the spec states it: with the \<open>classes_map\<close> file missing, unparseable or not
  named, the constructor does not raise. It does when a size variable is not a number:
  the two \<open>int\<close> calls stand outside the \<open>try\<close>.
\<close>

theorem init_missing_classes_raises:
  "environ bad_width_world ''classes_map'' = None
   \<and> (init bad_width_world ''mask'' ''models'' :: py_error + (string, nat, real) TFModel)
       = Inl ValueError"
  by (simp add: bad_width_world_def demo_world_def init_def environ_get_def py_int_def
      strip_def is_space_def parse_nat_def digit_val_def)

text \<open>
  C5, amended: if the \<open>classes_map\<close> variable is unset, or the file it names cannot be
  opened, or \<open>json.load\<close> raises on it, and each of \<open>IMAGE_WIDTH\<close> and \<open>IMAGE_HEIGHT\<close> is
  unset or a valid integer literal, then the constructor does not raise: it returns the
  adapter with \<open>classes\<close> set to \<open>None\<close> and the two sizes as read.
\<close>

theorem init_classes_absent:
  assumes "environ w ''classes_map'' = None
           \<or> (\<exists>path. environ w ''classes_map'' = Some path
                 \<and> (files w path = None
                    \<or> (\<exists>f e. files w path = Some f \<and> json_load w f = Inl e)))"
    and "py_int (environ_get w ''IMAGE_WIDTH'' ''128'') = Some a"
    and "py_int (environ_get w ''IMAGE_HEIGHT'' ''128'') = Some b"
  shows "init w nm dir =
           Inr \<lparr>name = nm, model_dir = dir, IMAGE_WIDTH = a, IMAGE_HEIGHT = b,
                classes = None, model = None\<rparr>"
proof -
  from assms(1) have "\<exists>e. load_classes w = Inl e"
    by (auto simp: load_classes_def)
  then show ?thesis
    using init_reads_sizes [OF assms(2,3)] by auto
qed

theorem init_classes_absent_witness:
  "(init demo_world ''mask'' ''models'' :: py_error + (string, nat, real) TFModel)
     = Inr \<lparr>name = ''mask'', model_dir = ''models'', IMAGE_WIDTH = 4, IMAGE_HEIGHT = 2,
            classes = None, model = None\<rparr>"
proof -
  have "environ demo_world ''classes_map'' = None"
    by (simp add: demo_world_def)
  moreover have "py_int (environ_get demo_world ''IMAGE_WIDTH'' ''128'') = Some 4"
    "py_int (environ_get demo_world ''IMAGE_HEIGHT'' ''128'') = Some 2"
    by (simp_all add: demo_world_def environ_get_def py_int_def strip_def is_space_def
        parse_nat_def digit_val_def)
  ultimately show ?thesis
    by (intro init_classes_absent) simp_all
qed

text \<open>
  C9: with \<open>IMAGE_WIDTH\<close> and \<open>IMAGE_HEIGHT\<close> unset the constructor sets both sizes to
  128; with both set to integer literals (the decimal literal \<open>int_str a\<close> of any
  integer \<open>a\<close>, or any other string that \<open>int\<close> accepts) it sets them to those integers.
\<close>

theorem init_sizes:
  "(environ w ''IMAGE_WIDTH'' = None \<and> environ w ''IMAGE_HEIGHT'' = None
      \<longrightarrow> (\<exists>self. (init w nm dir :: py_error + ('j, 'px, 's) TFModel) = Inr self
             \<and> IMAGE_WIDTH self = 128 \<and> IMAGE_HEIGHT self = 128))
   \<and> (environ w ''IMAGE_WIDTH'' = Some (int_str a) \<and> environ w ''IMAGE_HEIGHT'' = Some (int_str b)
      \<longrightarrow> (\<exists>self. (init w nm dir :: py_error + ('j, 'px, 's) TFModel) = Inr self
             \<and> IMAGE_WIDTH self = a \<and> IMAGE_HEIGHT self = b))
   \<and> (environ w ''IMAGE_WIDTH'' = Some sw \<and> py_int sw = Some a
        \<and> environ w ''IMAGE_HEIGHT'' = Some sh \<and> py_int sh = Some b
      \<longrightarrow> (\<exists>self. (init w nm dir :: py_error + ('j, 'px, 's) TFModel) = Inr self
             \<and> IMAGE_WIDTH self = a \<and> IMAGE_HEIGHT self = b))"
  by (auto simp: init_def environ_get_def py_int_default py_int_int_str)

theorem init_sizes_witness:
  "(\<exists>self. (init (demo_world\<lparr>environ := Map.empty\<rparr>) ''mask'' ''models''
              :: py_error + (string, nat, real) TFModel) = Inr self
          \<and> IMAGE_WIDTH self = 128 \<and> IMAGE_HEIGHT self = 128)
   \<and> (\<exists>self. (init demo_world ''mask'' ''models''
              :: py_error + (string, nat, real) TFModel) = Inr self
          \<and> IMAGE_WIDTH self = 4 \<and> IMAGE_HEIGHT self = 2)"
proof
  show "\<exists>self. (init (demo_world\<lparr>environ := Map.empty\<rparr>) ''mask'' ''models''
              :: py_error + (string, nat, real) TFModel) = Inr self
          \<and> IMAGE_WIDTH self = 128 \<and> IMAGE_HEIGHT self = 128"
    using init_sizes [of "demo_world\<lparr>environ := Map.empty\<rparr>" "''mask''" "''models''"
        0 0 "[]" "[]", THEN conjunct1]
    by simp
  have s: "int_str 4 = ''4''" "int_str 2 = ''2''"
    by (simp_all add: int_str_def nat_str.simps digit_char_def)
  show "\<exists>self. (init demo_world ''mask'' ''models''
              :: py_error + (string, nat, real) TFModel) = Inr self
          \<and> IMAGE_WIDTH self = 4 \<and> IMAGE_HEIGHT self = 2"
    using init_sizes [of demo_world "''mask''" "''models''" 4 2 "[]" "[]",
        THEN conjunct2, THEN conjunct1]
    by (simp add: demo_world_def s)
qed

text \<open>
  C10: if \<open>IMAGE_WIDTH\<close> or \<open>IMAGE_HEIGHT\<close> is set to a string that \<open>int\<close> rejects, the
  constructor raises \<open>ValueError\<close>, whatever the \<open>classes_map\<close> file is: only the
  loading of the classes is guarded.
\<close>

theorem init_invalid_size_raises:
  assumes "(\<exists>s. environ w ''IMAGE_WIDTH'' = Some s \<and> py_int s = None)
           \<or> (\<exists>s. environ w ''IMAGE_HEIGHT'' = Some s \<and> py_int s = None)"
  shows "init w nm dir = Inl ValueError"
  using assms by (auto simp: init_def environ_get_def split: option.splits)

theorem init_invalid_size_raises_witness:
  "load_classes bad_height_world = Inr (Some ''{}'')
   \<and> (init bad_height_world ''mask'' ''models'' :: py_error + (string, nat, real) TFModel)
       = Inl ValueError"
proof -
  have "environ bad_height_world ''IMAGE_HEIGHT'' = Some ''12px''" "py_int ''12px'' = None"
    by (simp_all add: bad_height_world_def py_int_def strip_def is_space_def
        parse_nat_def digit_val_def)
  then have "\<exists>s. environ bad_height_world ''IMAGE_HEIGHT'' = Some s \<and> py_int s = None"
    by blast
  then have "(init bad_height_world ''mask'' ''models''
               :: py_error + (string, nat, real) TFModel) = Inl ValueError"
    by (intro init_invalid_size_raises) simp
  moreover have "load_classes bad_height_world = Inr (Some ''{}'')"
    by (simp add: load_classes_def bad_height_world_def)
  ultimately show ?thesis by simp
qed

end
